theory Spec2Isabelle
  imports Main "HOL-Library.Word" "HOL-Library.Monad_Syntax"
begin

unbundle bit_operations_syntax

section \<open>The allocator of allocator.c over a typed store\<close>

text \<open>
  The embedding follows \<^verbatim>\<open>src/allocator.c\<close> built with the flags of
  \<^verbatim>\<open>src/allocator.h\<close>: \<^verbatim>\<open>ENABLE_STATS\<close>, \<^verbatim>\<open>MEMORY_GUARDS\<close>, \<^verbatim>\<open>BOUNDARY_TAGS\<close>,
  \<^verbatim>\<open>CACHE_LOCALITY\<close>, \<^verbatim>\<open>LEAK_DETECTION\<close> all 1 and \<^verbatim>\<open>DEBUG_LEVEL\<close> 1, on an LP64
  target (\<^verbatim>\<open>size_t\<close> and pointers of 64 bits, \<^verbatim>\<open>sizeof(Block) = 64\<close>,
  \<^verbatim>\<open>sizeof(BlockFooter) = 16\<close>).

  Pointers are absolute 64-bit addresses, 0 is \<^verbatim>\<open>NULL\<close>. The globals of the C file
  are the fields of one record. The region is a store of three kinds of objects:
  block headers, block footers and plain data bytes, each found at the address where the
  code wrote it. An access succeeds only inside the region and only where an object of
  the right kind lives; writing an object removes whatever other object its bytes
  overlap. Every other access has no value in the model, \<open>None\<close>, as has a loop that
  does not end: the access is undefined behaviour of the C program, or it reads a header
  or footer over which plain bytes were written, which the C program reads with its new
  bytes. A run with the value \<open>None\<close> is a run about which the model says nothing; a
  run with a value \<open>Some\<close> has read every header and footer as the code last wrote it.

  Left out: the mutex (one thread), the two wall-clock accumulators of the statistics,
  the text printed on stdout, and \<^verbatim>\<open>check_heap_integrity\<close>, which returns at once for
  \<^verbatim>\<open>DEBUG_LEVEL < 2\<close>. The lines written to stderr are kept as a log.
\<close>

type_synonym addr = "64 word"
type_synonym size_t = "64 word"
type_synonym uint32_t = "32 word"
type_synonym byte = "8 word"

subsection \<open>Constants of allocator.h\<close>

definition HEAP_SIZE :: size_t where "HEAP_SIZE = 1048576"
definition ALIGNMENT :: size_t where "ALIGNMENT = 16"
definition SIZE_MAX :: size_t where "SIZE_MAX = 0xFFFFFFFFFFFFFFFF"
definition SENTINEL_VALUE :: uint32_t where "SENTINEL_VALUE = 0xCAFEBABE"
definition FOOTER_SENTINEL :: uint32_t where "FOOTER_SENTINEL = 0xDEADBEEF"
definition GUARD_VALUE :: byte where "GUARD_VALUE = 0xFE"
definition NUM_SIZE_CLASSES :: nat where "NUM_SIZE_CLASSES = 8"

text \<open>\<^verbatim>\<open>sizeof(Block)\<close> and \<^verbatim>\<open>sizeof(BlockFooter)\<close> on LP64.\<close>

definition sizeof_Block :: size_t where "sizeof_Block = 64"
definition sizeof_BlockFooter :: size_t where "sizeof_BlockFooter = 16"

definition ALIGN :: "size_t \<Rightarrow> size_t" where
  "ALIGN sz = (sz + (ALIGNMENT - 1)) AND NOT (ALIGNMENT - 1)"

definition MIN_BLOCK_SIZE :: size_t where
  "MIN_BLOCK_SIZE = ALIGN (sizeof_Block + 16)"

subsection \<open>The structs\<close>

text \<open>
  Field \<^verbatim>\<open>size\<close> is \<open>size_C\<close> and field \<^verbatim>\<open>next\<close> is \<open>next_C\<close>; the fields of the
  footer and of the leak record carry a prefix, since a record field is a constant.
\<close>

record Block =
  sentinel_start :: uint32_t
  size_C :: size_t
  free :: bool
  prev :: addr
  next_C :: addr
  request_size :: uint32_t
  address_tag :: addr
  alloc_id :: uint32_t
  sentinel_end :: uint32_t

record BlockFooter =
  footer_size :: size_t
  footer_free :: bool
  footer_sentinel :: uint32_t

text \<open>The leak records live in the host's heap; their \<^verbatim>\<open>next\<close> links are the list.\<close>

record AllocationRecord =
  rec_ptr :: addr
  rec_size :: size_t
  rec_alloc_id :: uint32_t
  rec_file :: string
  rec_line :: int

record AllocStats =
  allocated_bytes :: size_t
  free_bytes :: size_t
  allocated_blocks :: size_t
  free_blocks :: size_t
  total_allocations :: size_t
  total_frees :: size_t
  failed_allocations :: size_t
  fragmentation_count :: size_t
  largest_free_block :: size_t
  smallest_free_block :: size_t
  requested_bytes :: size_t
  overhead_bytes :: size_t
  class_usage :: "nat \<Rightarrow> size_t"

datatype diagnostic =
    Init_failed
  | Outside_heap string addr
  | Start_sentinel_corrupted string addr
  | End_sentinel_corrupted string addr
  | Footer_sentinel_corrupted string addr
  | Invalid_size string addr size_t
  | Double_free addr uint32_t
  | Buffer_overrun addr uint32_t

text \<open>
  The globals. \<open>host_region\<close> is what the host's \<^verbatim>\<open>malloc(HEAP_SIZE)\<close> answers (0 when
  it fails) and \<open>host_record\<close> whether the host serves the request for a leak record.
\<close>

record allocator =
  heap :: addr
  blocks :: "addr \<Rightarrow> Block option"
  footers :: "addr \<Rightarrow> BlockFooter option"
  bytes :: "addr \<Rightarrow> byte option"
  free_lists :: "nat \<Rightarrow> addr"
  used_list :: addr
  initialized :: bool
  next_alloc_id :: uint32_t
  allocation_records :: "AllocationRecord list"
  stats :: AllocStats
  stderr_log :: "diagnostic list"
  host_region :: addr
  host_record :: bool

definition zero_stats :: AllocStats where
  "zero_stats = \<lparr>allocated_bytes = 0, free_bytes = 0, allocated_blocks = 0, free_blocks = 0,
     total_allocations = 0, total_frees = 0, failed_allocations = 0, fragmentation_count = 0,
     largest_free_block = 0, smallest_free_block = 0, requested_bytes = 0, overhead_bytes = 0,
     class_usage = (\<lambda>_. 0)\<rparr>"

text \<open>The state of the program at start: the initialisers of the globals.\<close>

definition start :: "addr \<Rightarrow> bool \<Rightarrow> allocator" where
  "start hr hrec = \<lparr>heap = 0, blocks = (\<lambda>_. None), footers = (\<lambda>_. None), bytes = (\<lambda>_. None),
     free_lists = (\<lambda>_. 0), used_list = 0, initialized = False, next_alloc_id = 1,
     allocation_records = [], stats = zero_stats, stderr_log = [],
     host_region = hr, host_record = hrec\<rparr>"

subsection \<open>The store\<close>

text \<open>
  \<open>n\<close> bytes at \<open>a\<close> lie in the region that starts at \<open>hp\<close>, which does not wrap
  around the address space.
\<close>

definition in_heap :: "addr \<Rightarrow> addr \<Rightarrow> nat \<Rightarrow> bool" where
  "in_heap hp a n \<longleftrightarrow>
     hp \<noteq> 0 \<and> unat hp + unat HEAP_SIZE < 2 ^ 64 \<and>
     unat hp \<le> unat a \<and> unat a + n \<le> unat hp + unat HEAP_SIZE"

definition in_region :: "allocator \<Rightarrow> addr \<Rightarrow> nat \<Rightarrow> bool" where
  "in_region s a n = in_heap (heap s) a n"

definition overlap :: "addr \<Rightarrow> nat \<Rightarrow> addr \<Rightarrow> nat \<Rightarrow> bool" where
  "overlap a m b n \<longleftrightarrow> unat a < unat b + n \<and> unat b < unat a + m"

text \<open>What a write of \<open>n\<close> bytes at \<open>a\<close> leaves of the headers, footers and data bytes.\<close>

definition drop_blocks :: "addr \<Rightarrow> nat \<Rightarrow> (addr \<Rightarrow> Block option) \<Rightarrow> addr \<Rightarrow> Block option" where
  "drop_blocks a n B x = (if overlap x 64 a n then None else B x)"

definition drop_footers ::
  "addr \<Rightarrow> nat \<Rightarrow> (addr \<Rightarrow> BlockFooter option) \<Rightarrow> addr \<Rightarrow> BlockFooter option" where
  "drop_footers a n F x = (if overlap x 16 a n then None else F x)"

definition drop_bytes :: "addr \<Rightarrow> nat \<Rightarrow> (addr \<Rightarrow> byte option) \<Rightarrow> addr \<Rightarrow> byte option" where
  "drop_bytes a n Y x = (if overlap x 1 a n then None else Y x)"

text \<open>\<open>n\<close> data bytes at \<open>a\<close>, byte \<open>i\<close> being \<open>f i\<close>.\<close>

definition put_bytes ::
  "addr \<Rightarrow> nat \<Rightarrow> (nat \<Rightarrow> byte option) \<Rightarrow> (addr \<Rightarrow> byte option) \<Rightarrow> addr \<Rightarrow> byte option" where
  "put_bytes a n f Y x = (if overlap x 1 a n then f (unat x - unat a) else Y x)"

text \<open>The region after \<^verbatim>\<open>memset(heap, 0, HEAP_SIZE)\<close>.\<close>

definition zero_bytes :: "addr \<Rightarrow> addr \<Rightarrow> byte option" where
  "zero_bytes hp x = (if in_heap hp x 1 then Some 0 else None)"

definition load_block :: "allocator \<Rightarrow> addr \<Rightarrow> Block option" where
  "load_block s a = (if in_region s a 64 then blocks s a else None)"

definition load_footer :: "allocator \<Rightarrow> addr \<Rightarrow> BlockFooter option" where
  "load_footer s a = (if in_region s a 16 then footers s a else None)"

definition byte_at :: "addr \<Rightarrow> (addr \<Rightarrow> byte option) \<Rightarrow> addr \<Rightarrow> byte option" where
  "byte_at hp Y a = (if in_heap hp a 1 then Y a else None)"

definition load_byte :: "allocator \<Rightarrow> addr \<Rightarrow> byte option" where
  "load_byte s a = byte_at (heap s) (bytes s) a"

definition store_block :: "addr \<Rightarrow> Block \<Rightarrow> allocator \<Rightarrow> allocator option" where
  "store_block a b s =
     (if in_region s a 64 then
        Some (s\<lparr>blocks := (drop_blocks a 64 (blocks s))(a := Some b),
               footers := drop_footers a 64 (footers s),
               bytes := drop_bytes a 64 (bytes s)\<rparr>)
      else None)"

definition store_footer :: "addr \<Rightarrow> BlockFooter \<Rightarrow> allocator \<Rightarrow> allocator option" where
  "store_footer a f s =
     (if in_region s a 16 then
        Some (s\<lparr>blocks := drop_blocks a 16 (blocks s),
               footers := (drop_footers a 16 (footers s))(a := Some f),
               bytes := drop_bytes a 16 (bytes s)\<rparr>)
      else None)"

definition store_bytes :: "addr \<Rightarrow> nat \<Rightarrow> (nat \<Rightarrow> byte option) \<Rightarrow> allocator \<Rightarrow> allocator option" where
  "store_bytes a n f s =
     (if n = 0 then Some s
      else if in_region s a n \<and> (\<forall>i < n. f i \<noteq> None) then
        Some (s\<lparr>blocks := drop_blocks a n (blocks s),
               footers := drop_footers a n (footers s),
               bytes := put_bytes a n f (bytes s)\<rparr>)
      else None)"

text \<open>An assignment to fields of the header at \<open>a\<close>.\<close>

definition update_block :: "addr \<Rightarrow> (Block \<Rightarrow> Block) \<Rightarrow> allocator \<Rightarrow> allocator option" where
  "update_block a g s =
     (case load_block s a of None \<Rightarrow> None | Some b \<Rightarrow> store_block a (g b) s)"

definition say :: "diagnostic \<Rightarrow> allocator \<Rightarrow> allocator" where
  "say d s = s\<lparr>stderr_log := stderr_log s @ [d]\<rparr>"

subsection \<open>Layout helpers\<close>

definition get_size_class :: "size_t \<Rightarrow> nat" where
  "get_size_class sz =
     (if sz \<le> 32 then 0 else if sz \<le> 64 then 1 else if sz \<le> 128 then 2
      else if sz \<le> 256 then 3 else if sz \<le> 512 then 4 else if sz \<le> 1024 then 5
      else if sz \<le> 2048 then 6 else 7)"

definition get_footer :: "allocator \<Rightarrow> addr \<Rightarrow> addr option" where
  "get_footer s block =
     (case load_block s block of None \<Rightarrow> None
      | Some b \<Rightarrow> Some (block + sizeof_Block + size_C b))"

definition set_block_footer :: "addr \<Rightarrow> allocator \<Rightarrow> allocator option" where
  "set_block_footer block s =
     (case load_block s block of None \<Rightarrow> None
      | Some b \<Rightarrow>
          (let footer = block + sizeof_Block + size_C b in
           if footer \<noteq> 0 then
             store_footer footer
               \<lparr>footer_size = size_C b, footer_free = free b, footer_sentinel = FOOTER_SENTINEL\<rparr> s
           else Some s))"

definition get_prev_physical_block :: "allocator \<Rightarrow> addr \<Rightarrow> addr option" where
  "get_prev_physical_block s block =
     (if block \<le> heap s then Some 0
      else case load_footer s (block - sizeof_BlockFooter) of None \<Rightarrow> None
        | Some prev_footer \<Rightarrow>
            if footer_sentinel prev_footer \<noteq> FOOTER_SENTINEL then Some 0
            else (let prev_block = (block - sizeof_BlockFooter) - footer_size prev_footer - sizeof_Block in
                  case load_block s prev_block of None \<Rightarrow> None
                  | Some pb \<Rightarrow>
                      if sentinel_start pb \<noteq> SENTINEL_VALUE \<or> sentinel_end pb \<noteq> SENTINEL_VALUE
                      then Some 0 else Some prev_block))"

definition get_block_data :: "addr \<Rightarrow> addr" where
  "get_block_data block = block + sizeof_Block"

definition add_guard_bytes :: "addr \<Rightarrow> size_t \<Rightarrow> allocator \<Rightarrow> allocator option" where
  "add_guard_bytes p sz s =
     (case store_bytes (p - ALIGNMENT) 16 (\<lambda>_. Some GUARD_VALUE) s of None \<Rightarrow> None
      | Some s1 \<Rightarrow> store_bytes (p + sz) 16 (\<lambda>_. Some GUARD_VALUE) s1)"

text \<open>One of the two loops of \<^verbatim>\<open>check_guard_bytes\<close>: it stops at the first other byte.\<close>

fun check_bytes :: "allocator \<Rightarrow> addr list \<Rightarrow> bool option" where
  "check_bytes s [] = Some True"
| "check_bytes s (a # as) =
     (case load_byte s a of None \<Rightarrow> None
      | Some v \<Rightarrow> if v \<noteq> GUARD_VALUE then Some False else check_bytes s as)"

definition check_guard_bytes :: "allocator \<Rightarrow> addr \<Rightarrow> size_t \<Rightarrow> bool option" where
  "check_guard_bytes s p sz =
     (case check_bytes s (map (\<lambda>i. p - ALIGNMENT + of_nat i) [0..<16]) of None \<Rightarrow> None
      | Some ok \<Rightarrow>
          if \<not> ok then Some False
          else check_bytes s (map (\<lambda>i. p + sz + of_nat i) [0..<16]))"

subsection \<open>Fragmentation statistics\<close>

partial_function (option) frag_list ::
  "allocator \<Rightarrow> addr \<Rightarrow> size_t \<Rightarrow> size_t \<Rightarrow> size_t \<Rightarrow> (size_t \<times> size_t \<times> size_t) option" where
  "frag_list s current cnt largest smallest =
     (if current = 0 then Some (cnt, largest, smallest)
      else case load_block s current of None \<Rightarrow> None
        | Some b \<Rightarrow>
            frag_list s (next_C b) (cnt + 1)
              (if size_C b > largest then size_C b else largest)
              (if size_C b < smallest then size_C b else smallest))"

fun frag_classes ::
  "allocator \<Rightarrow> nat list \<Rightarrow> size_t \<Rightarrow> size_t \<Rightarrow> size_t \<Rightarrow> (size_t \<times> size_t \<times> size_t) option" where
  "frag_classes s [] cnt largest smallest = Some (cnt, largest, smallest)"
| "frag_classes s (i # is) cnt largest smallest =
     (case frag_list s (free_lists s i) cnt largest smallest of None \<Rightarrow> None
      | Some (c, l, m) \<Rightarrow> frag_classes s is c l m)"

definition update_fragmentation_stats :: "allocator \<Rightarrow> allocator option" where
  "update_fragmentation_stats s =
     (case frag_classes s [0..<NUM_SIZE_CLASSES] 0 0 SIZE_MAX of None \<Rightarrow> None
      | Some (c, l, m) \<Rightarrow>
          Some (s\<lparr>stats := (stats s)\<lparr>fragmentation_count := c, largest_free_block := l,
                   smallest_free_block := (if c = 0 then 0 else m)\<rparr>\<rparr>))"

subsection \<open>Validation\<close>

definition validate_block :: "addr \<Rightarrow> string \<Rightarrow> allocator \<Rightarrow> allocator option" where
  "validate_block block location s =
     (if block = 0 then Some s
      else if block < heap s \<or> block \<ge> heap s + HEAP_SIZE then
        Some (say (Outside_heap location block) s)
      else case load_block s block of None \<Rightarrow> None
        | Some b \<Rightarrow>
            (let s1 = (if sentinel_start b \<noteq> SENTINEL_VALUE
                       then say (Start_sentinel_corrupted location block) s else s);
                 s2 = (if sentinel_end b \<noteq> SENTINEL_VALUE
                       then say (End_sentinel_corrupted location block) s1 else s1);
                 footer = block + sizeof_Block + size_C b
             in case (if footer \<noteq> 0 then
                        (case load_footer s footer of None \<Rightarrow> None
                         | Some f \<Rightarrow>
                             Some (if footer_sentinel f \<noteq> FOOTER_SENTINEL
                                   then say (Footer_sentinel_corrupted location block) s2 else s2))
                      else Some s2) of None \<Rightarrow> None
                | Some s3 \<Rightarrow>
                    Some (if size_C b > HEAP_SIZE
                          then say (Invalid_size location block (size_C b)) s3 else s3)))"

subsection \<open>The lists\<close>

text \<open>The loop of \<^verbatim>\<open>add_to_free_list\<close> under \<^verbatim>\<open>CACHE_LOCALITY\<close>; it gives \<open>(prev, current)\<close>.\<close>

partial_function (option) locality_walk ::
  "allocator \<Rightarrow> addr \<Rightarrow> addr \<Rightarrow> addr \<Rightarrow> (addr \<times> addr) option" where
  "locality_walk s block prv current =
     (if current = 0 then Some (prv, current)
      else case load_block s current of None \<Rightarrow> None
        | Some c \<Rightarrow>
            if next_C c \<noteq> 0 \<and> next_C c < block
            then locality_walk s block current (next_C c)
            else Some (prv, current))"

definition add_to_free_list :: "addr \<Rightarrow> allocator \<Rightarrow> allocator option" where
  "add_to_free_list block s =
     (if block = 0 then Some s
      else do {
        s1 \<leftarrow> update_block block (\<lambda>b. b\<lparr>free := True\<rparr>) s;
        b1 \<leftarrow> load_block s1 block;
        let size_class = get_size_class (size_C b1);
        s2 \<leftarrow> update_block block (\<lambda>b. b\<lparr>prev := 0, next_C := free_lists s1 size_class\<rparr>) s1;
        s3 \<leftarrow> (if free_lists s2 size_class \<noteq> 0
               then update_block (free_lists s2 size_class) (\<lambda>b. b\<lparr>prev := block\<rparr>) s2
               else Some s2);
        let s4 = s3\<lparr>free_lists := (free_lists s3)(size_class := block)\<rparr>;
        if size_class < 4 then do {
          (prv, current) \<leftarrow> locality_walk s4 block 0 (free_lists s4 size_class);
          if prv \<noteq> 0 then do {
            hd_b \<leftarrow> load_block s4 (free_lists s4 size_class);
            let s5 = s4\<lparr>free_lists := (free_lists s4)(size_class := next_C hd_b)\<rparr>;
            s6 \<leftarrow> (if free_lists s5 size_class \<noteq> 0
                   then update_block (free_lists s5 size_class) (\<lambda>b. b\<lparr>prev := 0\<rparr>) s5
                   else Some s5);
            cur_b \<leftarrow> load_block s6 current;
            s7 \<leftarrow> update_block block (\<lambda>b. b\<lparr>next_C := next_C cur_b\<rparr>) s6;
            s8 \<leftarrow> (if next_C cur_b \<noteq> 0
                   then update_block (next_C cur_b) (\<lambda>b. b\<lparr>prev := block\<rparr>) s7
                   else Some s7);
            s9 \<leftarrow> update_block current (\<lambda>b. b\<lparr>next_C := block\<rparr>) s8;
            update_block block (\<lambda>b. b\<lparr>prev := current\<rparr>) s9
          } else Some s4
        } else Some s4
      })"

text \<open>The unlinking that \<^verbatim>\<open>remove_from_free_list\<close> and \<^verbatim>\<open>remove_from_used_list\<close> share.\<close>

definition unlink_neighbours :: "addr \<Rightarrow> allocator \<Rightarrow> allocator option" where
  "unlink_neighbours block s = do {
     b \<leftarrow> load_block s block;
     s1 \<leftarrow> (if prev b \<noteq> 0 then update_block (prev b) (\<lambda>p. p\<lparr>next_C := next_C b\<rparr>) s else Some s);
     b1 \<leftarrow> load_block s1 block;
     (if next_C b1 \<noteq> 0 then update_block (next_C b1) (\<lambda>n. n\<lparr>prev := prev b1\<rparr>) s1 else Some s1)
   }"

definition remove_from_free_list :: "addr \<Rightarrow> allocator \<Rightarrow> allocator option" where
  "remove_from_free_list block s =
     (if block = 0 then Some s
      else do {
        b \<leftarrow> load_block s block;
        let size_class = get_size_class (size_C b);
        s2 \<leftarrow> unlink_neighbours block s;
        b2 \<leftarrow> load_block s2 block;
        let s3 = (if free_lists s2 size_class = block
                  then s2\<lparr>free_lists := (free_lists s2)(size_class := next_C b2)\<rparr> else s2);
        update_block block (\<lambda>b. b\<lparr>prev := 0, next_C := 0\<rparr>) s3
      })"

definition add_to_used_list :: "addr \<Rightarrow> allocator \<Rightarrow> allocator option" where
  "add_to_used_list block s =
     (if block = 0 then Some s
      else do {
        s1 \<leftarrow> update_block block (\<lambda>b. b\<lparr>free := False, prev := 0, next_C := used_list s\<rparr>) s;
        s2 \<leftarrow> (if used_list s1 \<noteq> 0
               then update_block (used_list s1) (\<lambda>b. b\<lparr>prev := block\<rparr>) s1 else Some s1);
        Some (s2\<lparr>used_list := block\<rparr>)
      })"

definition remove_from_used_list :: "addr \<Rightarrow> allocator \<Rightarrow> allocator option" where
  "remove_from_used_list block s =
     (if block = 0 then Some s
      else do {
        s2 \<leftarrow> unlink_neighbours block s;
        b2 \<leftarrow> load_block s2 block;
        let s3 = (if used_list s2 = block then s2\<lparr>used_list := next_C b2\<rparr> else s2);
        update_block block (\<lambda>b. b\<lparr>prev := 0, next_C := 0\<rparr>) s3
      })"

subsection \<open>Placement\<close>

text \<open>The \<^verbatim>\<open>while\<close> loop of \<^verbatim>\<open>find_best_fit_block\<close> over one bucket.\<close>

partial_function (option) scan_class ::
  "size_t \<Rightarrow> addr \<Rightarrow> addr \<Rightarrow> size_t \<Rightarrow> allocator \<Rightarrow> (addr \<times> allocator) option" where
  "scan_class sz current best_fit smallest_diff s =
     (if current = 0 then Some (best_fit, s)
      else case validate_block current ''find_best_fit'' s of None \<Rightarrow> None
        | Some s1 \<Rightarrow>
            (case load_block s1 current of None \<Rightarrow> None
             | Some b \<Rightarrow>
                 if free b \<and> size_C b \<ge> sz then
                   (if size_C b - sz = 0 then Some (current, s1)
                    else if size_C b - sz < smallest_diff
                    then scan_class sz (next_C b) current (size_C b - sz) s1
                    else scan_class sz (next_C b) best_fit smallest_diff s1)
                 else scan_class sz (next_C b) best_fit smallest_diff s1))"

text \<open>The \<^verbatim>\<open>for\<close> loop over the larger classes.\<close>

fun first_nonempty :: "allocator \<Rightarrow> nat list \<Rightarrow> addr" where
  "first_nonempty s [] = 0"
| "first_nonempty s (c # cs) =
     (if free_lists s c \<noteq> 0 then free_lists s c else first_nonempty s cs)"

definition find_best_fit_block :: "size_t \<Rightarrow> allocator \<Rightarrow> (addr \<times> allocator) option" where
  "find_best_fit_block sz s =
     (let size_class = get_size_class sz in
      case scan_class sz (free_lists s size_class) 0 SIZE_MAX s of None \<Rightarrow> None
      | Some (best_fit, s1) \<Rightarrow>
          if best_fit \<noteq> 0 then Some (best_fit, s1)
          else Some (first_nonempty s1 [size_class + 1 ..< NUM_SIZE_CLASSES], s1))"

definition split_block :: "addr \<Rightarrow> size_t \<Rightarrow> allocator \<Rightarrow> allocator option" where
  "split_block block sz s = do {
     s1 \<leftarrow> validate_block block ''split_block_before'' s;
     b \<leftarrow> load_block s1 block;
     let original_size = size_C b;
     let remaining_size = original_size - sz - sizeof_Block - sizeof_BlockFooter;
     if remaining_size < MIN_BLOCK_SIZE + ALIGNMENT * 2 then Some s1
     else do {
       s2 \<leftarrow> update_block block (\<lambda>b. b\<lparr>size_C := sz\<rparr>) s1;
       s3 \<leftarrow> set_block_footer block s2;
       let new_block = block + sizeof_Block + sz + sizeof_BlockFooter;
       s4 \<leftarrow> store_block new_block
               \<lparr>sentinel_start = SENTINEL_VALUE, size_C = remaining_size, free = True, prev = 0,
                next_C = 0, request_size = 0, address_tag = 0, alloc_id = 0,
                sentinel_end = SENTINEL_VALUE\<rparr> s3;
       s5 \<leftarrow> set_block_footer new_block s4;
       s6 \<leftarrow> add_to_free_list new_block s5;
       let s7 = s6\<lparr>stats := (stats s6)\<lparr>free_blocks := free_blocks (stats s6) + 1\<rparr>\<rparr>;
       s8 \<leftarrow> validate_block block ''split_block_after1'' s7;
       validate_block new_block ''split_block_after2'' s8
     }
   }"

subsection \<open>Coalescing\<close>

definition try_merge_with_neighbors :: "addr \<Rightarrow> allocator \<Rightarrow> (bool \<times> allocator) option" where
  "try_merge_with_neighbors block s =
     (if block < heap s \<or> block \<ge> heap s + HEAP_SIZE then Some (False, s)
      else do {
        b \<leftarrow> load_block s block;
        let next_physical = block + sizeof_Block + size_C b + sizeof_BlockFooter;
        (merged1, s1) \<leftarrow>
          (if next_physical < heap s + HEAP_SIZE - sizeof_Block then do {
             sa \<leftarrow> validate_block next_physical ''merge_check_next'' s;
             nb \<leftarrow> load_block sa next_physical;
             if free nb then do {
               sb \<leftarrow> remove_from_free_list next_physical sa;
               nb' \<leftarrow> load_block sb next_physical;
               sc \<leftarrow> update_block block
                       (\<lambda>b. b\<lparr>size_C := size_C b + (sizeof_Block + size_C nb' + sizeof_BlockFooter)\<rparr>) sb;
               sd \<leftarrow> set_block_footer block sc;
               Some (True, sd\<lparr>stats := (stats sd)\<lparr>free_blocks := free_blocks (stats sd) - 1\<rparr>\<rparr>)
             } else Some (False, sa)
           } else Some (False, s));
        prev_physical \<leftarrow> get_prev_physical_block s1 block;
        if prev_physical = 0 then Some (merged1, s1)
        else do {
          pb \<leftarrow> load_block s1 prev_physical;
          if free pb then do {
            s2 \<leftarrow> remove_from_free_list block s1;
            b2 \<leftarrow> load_block s2 block;
            s3 \<leftarrow> update_block prev_physical
                    (\<lambda>p. p\<lparr>size_C := size_C p + (sizeof_Block + size_C b2 + sizeof_BlockFooter)\<rparr>) s2;
            s4 \<leftarrow> set_block_footer prev_physical s3;
            Some (True, s4\<lparr>stats := (stats s4)\<lparr>free_blocks := free_blocks (stats s4) - 1\<rparr>\<rparr>)
          } else Some (merged1, s1)
        }
      })"

subsection \<open>The public functions\<close>

text \<open>
  \<^verbatim>\<open>initialize\<close>: \<^verbatim>\<open>memset(heap, 0, HEAP_SIZE)\<close> leaves a region of zero data bytes and no
  header or footer.
\<close>

definition initialize :: "allocator \<Rightarrow> allocator option" where
  "initialize s =
     (if initialized s then Some s
      else (let s0 = s\<lparr>heap := host_region s\<rparr> in
        if heap s0 = 0 then Some (say Init_failed s0)
        else if \<not> in_region s0 (heap s0) (unat HEAP_SIZE) then None
        else do {
          let s1 = s0\<lparr>blocks := (\<lambda>_. None), footers := (\<lambda>_. None),
                      bytes := zero_bytes (heap s0)\<rparr>;
          let first_block = heap s1;
          s2 \<leftarrow> store_block first_block
                 \<lparr>sentinel_start = SENTINEL_VALUE,
                  size_C = HEAP_SIZE - sizeof_Block - sizeof_BlockFooter, free = True, prev = 0,
                  next_C = 0, request_size = 0, address_tag = 0, alloc_id = 0,
                  sentinel_end = SENTINEL_VALUE\<rparr> s1;
          s3 \<leftarrow> set_block_footer first_block s2;
          s4 \<leftarrow> add_to_free_list first_block s3;
          fb \<leftarrow> load_block s4 first_block;
          Some (s4\<lparr>stats := (stats s4)\<lparr>free_bytes := size_C fb, free_blocks := 1,
                     largest_free_block := size_C fb, smallest_free_block := size_C fb\<rparr>,
                   initialized := True\<rparr>)
        }))"

definition my_malloc_internal ::
  "size_t \<Rightarrow> string \<Rightarrow> int \<Rightarrow> allocator \<Rightarrow> (addr \<times> allocator) option" where
  "my_malloc_internal requested_size file line s = do {
     s0 \<leftarrow> (if \<not> initialized s then initialize s else Some s);
     if requested_size = 0 then Some (0, s0)
     else do {
       let s1 = s0\<lparr>stats := (stats s0)\<lparr>total_allocations := total_allocations (stats s0) + 1,
                      requested_bytes := requested_bytes (stats s0) + requested_size\<rparr>\<rparr>;
       let aligned_size = ALIGN (requested_size + ALIGNMENT * 2);
       (block, s2) \<leftarrow> find_best_fit_block aligned_size s1;
       if block = 0 then
         Some (0, s2\<lparr>stats := (stats s2)\<lparr>failed_allocations := failed_allocations (stats s2) + 1\<rparr>\<rparr>)
       else do {
         b \<leftarrow> load_block s2 block;
         s3 \<leftarrow> (if size_C b \<ge> aligned_size + MIN_BLOCK_SIZE
                then split_block block aligned_size s2 else Some s2);
         s4 \<leftarrow> update_block block
                 (\<lambda>b. b\<lparr>free := False, request_size := ucast requested_size,
                        address_tag := 0xDEADBEEF, alloc_id := next_alloc_id s3\<rparr>) s3;
         let s5 = s4\<lparr>next_alloc_id := next_alloc_id s4 + 1\<rparr>;
         s6 \<leftarrow> remove_from_free_list block s5;
         s7 \<leftarrow> add_to_used_list block s6;
         s8 \<leftarrow> set_block_footer block s7;
         b8 \<leftarrow> load_block s8 block;
         let st = stats s8;
         let s9 = s8\<lparr>stats := st\<lparr>allocated_bytes := allocated_bytes st + size_C b8,
                      allocated_blocks := allocated_blocks st + 1,
                      free_bytes := free_bytes st - size_C b8,
                      free_blocks := free_blocks st - 1,
                      overhead_bytes := overhead_bytes st +
                        (sizeof_Block + sizeof_BlockFooter + (aligned_size - requested_size)),
                      class_usage := (class_usage st)(get_size_class aligned_size :=
                        class_usage st (get_size_class aligned_size) + aligned_size)\<rparr>\<rparr>;
         s10 \<leftarrow> update_fragmentation_stats s9;
         let data_ptr = get_block_data block + ALIGNMENT;
         s11 \<leftarrow> add_guard_bytes data_ptr requested_size s10;
         s12 \<leftarrow> store_bytes data_ptr (unat requested_size) (\<lambda>_. Some 0) s11;
         s13 \<leftarrow> (if host_record s12 then do {
                   b12 \<leftarrow> load_block s12 block;
                   Some (s12\<lparr>allocation_records :=
                           \<lparr>rec_ptr = data_ptr, rec_size = requested_size,
                            rec_alloc_id = alloc_id b12, rec_file = file, rec_line = line\<rparr>
                           # allocation_records s12\<rparr>)
                 } else Some s12);
         Some (data_ptr, s13)
       }
     }
   }"

text \<open>The loop of \<^verbatim>\<open>my_free\<close> that unlinks the first leak record of the pointer.\<close>

fun drop_record :: "addr \<Rightarrow> AllocationRecord list \<Rightarrow> AllocationRecord list" where
  "drop_record p [] = []"
| "drop_record p (r # rs) = (if rec_ptr r = p then rs else r # drop_record p rs)"

definition my_free :: "addr \<Rightarrow> allocator \<Rightarrow> allocator option" where
  "my_free user_ptr s = do {
     s0 \<leftarrow> (if \<not> initialized s then initialize s else Some s);
     if user_ptr = 0 then Some s0
     else do {
       let p = user_ptr - ALIGNMENT;
       let block = p - sizeof_Block;
       s1 \<leftarrow> validate_block block ''my_free'' s0;
       b \<leftarrow> load_block s1 block;
       if free b then Some (say (Double_free p (alloc_id b)) s1)
       else do {
         ok \<leftarrow> check_guard_bytes s1 (p + ALIGNMENT) (ucast (request_size b));
         let s2 = (if \<not> ok then say (Buffer_overrun (p + ALIGNMENT) (alloc_id b)) s1 else s1);
         let st = stats s2;
         let s3 = s2\<lparr>stats := st\<lparr>allocated_bytes := allocated_bytes st - size_C b,
                      allocated_blocks := allocated_blocks st - 1,
                      free_bytes := free_bytes st + size_C b,
                      free_blocks := free_blocks st + 1,
                      total_frees := total_frees st + 1,
                      class_usage := (class_usage st)(get_size_class (size_C b) :=
                        class_usage st (get_size_class (size_C b)) - size_C b)\<rparr>\<rparr>;
         s4 \<leftarrow> update_block block (\<lambda>b. b\<lparr>free := True, address_tag := 0\<rparr>) s3;
         s5 \<leftarrow> remove_from_used_list block s4;
         s6 \<leftarrow> add_to_free_list block s5;
         s7 \<leftarrow> set_block_footer block s6;
         (merged, s8) \<leftarrow> try_merge_with_neighbors block s7;
         let s9 = s8\<lparr>allocation_records := drop_record (p + ALIGNMENT) (allocation_records s8)\<rparr>;
         update_fragmentation_stats s9
       }
     }
   }"

definition my_malloc_size :: "addr \<Rightarrow> allocator \<Rightarrow> size_t option" where
  "my_malloc_size user_ptr s =
     (if user_ptr = 0 \<or> \<not> initialized s then Some 0
      else case load_block s (user_ptr - ALIGNMENT - sizeof_Block) of None \<Rightarrow> None
        | Some b \<Rightarrow>
            if sentinel_start b \<noteq> SENTINEL_VALUE \<or> sentinel_end b \<noteq> SENTINEL_VALUE \<or> free b
            then Some 0 else Some (ucast (request_size b)))"

text \<open>\<^verbatim>\<open>memcpy\<close>: its two ranges may not overlap.\<close>

definition copy_from :: "addr \<Rightarrow> (addr \<Rightarrow> byte option) \<Rightarrow> addr \<Rightarrow> nat \<Rightarrow> byte option" where
  "copy_from hp Y src i = byte_at hp Y (src + of_nat i)"

definition memcpy :: "addr \<Rightarrow> addr \<Rightarrow> nat \<Rightarrow> allocator \<Rightarrow> allocator option" where
  "memcpy dst src n s =
     (if n \<noteq> 0 \<and> overlap dst n src n then None
      else store_bytes dst n (copy_from (heap s) (bytes s) src) s)"

definition my_realloc_internal ::
  "addr \<Rightarrow> size_t \<Rightarrow> string \<Rightarrow> int \<Rightarrow> allocator \<Rightarrow> (addr \<times> allocator) option" where
  "my_realloc_internal user_ptr sz file line s =
     (if user_ptr = 0 then my_malloc_internal sz file line s
      else if sz = 0 then (case my_free user_ptr s of None \<Rightarrow> None | Some s' \<Rightarrow> Some (0, s'))
      else do {
        current_size \<leftarrow> my_malloc_size user_ptr s;
        if current_size = 0 then Some (0, s)
        else do {
          let block = (user_ptr - ALIGNMENT) - sizeof_Block;
          let required_total_size = ALIGN (sz + ALIGNMENT * 2);
          b \<leftarrow> load_block s block;
          if required_total_size \<le> size_C b then do {
            s1 \<leftarrow> (if size_C b \<ge> required_total_size + MIN_BLOCK_SIZE then do {
                     sa \<leftarrow> split_block block required_total_size s;
                     set_block_footer block sa
                   } else Some s);
            s2 \<leftarrow> update_block block (\<lambda>b. b\<lparr>request_size := ucast sz\<rparr>) s1;
            s3 \<leftarrow> add_guard_bytes user_ptr sz s2;
            Some (user_ptr, s3)
          } else do {
            (new_ptr, s1) \<leftarrow> my_malloc_internal sz file line s;
            if new_ptr = 0 then Some (0, s1)
            else do {
              s2 \<leftarrow> memcpy new_ptr user_ptr (unat (if current_size < sz then current_size else sz)) s1;
              s3 \<leftarrow> my_free user_ptr s2;
              Some (new_ptr, s3)
            }
          }
        }
      })"

definition my_calloc_internal ::
  "size_t \<Rightarrow> size_t \<Rightarrow> string \<Rightarrow> int \<Rightarrow> allocator \<Rightarrow> (addr \<times> allocator) option" where
  "my_calloc_internal count sz file line s =
     (if count > 0 \<and> sz > SIZE_MAX div count then Some (0, s)
      else my_malloc_internal (count * sz) file line s)"

subsection \<open>Sequences of public calls\<close>

datatype call =
    Allocate size_t
  | Free addr
  | Reallocate addr size_t
  | Zero_allocate size_t size_t

text \<open>One public call, made from \<^verbatim>\<open>main.c\<close>; the pointer it returns is dropped.\<close>

fun public_call :: "call \<Rightarrow> allocator \<Rightarrow> allocator option" where
  "public_call (Allocate n) s = map_option snd (my_malloc_internal n ''main.c'' 0 s)"
| "public_call (Free p) s = my_free p s"
| "public_call (Reallocate p n) s = map_option snd (my_realloc_internal p n ''main.c'' 0 s)"
| "public_call (Zero_allocate c n) s = map_option snd (my_calloc_internal c n ''main.c'' 0 s)"

fun run :: "call list \<Rightarrow> allocator \<Rightarrow> allocator option" where
  "run [] s = Some s"
| "run (c # cs) s = (case public_call c s of None \<Rightarrow> None | Some s' \<Rightarrow> run cs s')"

subsection \<open>What the lists and the region hold\<close>

text \<open>
  The walks of \<^verbatim>\<open>check_heap_integrity\<close> along one list: the number of blocks and the sum
  of their sizes.
\<close>

partial_function (option) tally_list ::
  "allocator \<Rightarrow> addr \<Rightarrow> size_t \<Rightarrow> size_t \<Rightarrow> (size_t \<times> size_t) option" where
  "tally_list s current cnt tot =
     (if current = 0 then Some (cnt, tot)
      else case load_block s current of None \<Rightarrow> None
        | Some b \<Rightarrow> tally_list s (next_C b) (cnt + 1) (tot + size_C b))"

fun tally_classes :: "allocator \<Rightarrow> nat list \<Rightarrow> size_t \<Rightarrow> size_t \<Rightarrow> (size_t \<times> size_t) option" where
  "tally_classes s [] cnt tot = Some (cnt, tot)"
| "tally_classes s (i # is) cnt tot =
     (case tally_list s (free_lists s i) cnt tot of None \<Rightarrow> None
      | Some (c, t) \<Rightarrow> tally_classes s is c t)"

definition free_tally :: "allocator \<Rightarrow> (size_t \<times> size_t) option" where
  "free_tally s = tally_classes s [0..<NUM_SIZE_CLASSES] 0 0"

definition used_tally :: "allocator \<Rightarrow> (size_t \<times> size_t) option" where
  "used_tally s = tally_list s (used_list s) 0 0"

text \<open>Every block on the list from \<open>current\<close> on is of size class \<open>i\<close>.\<close>

partial_function (option) class_list :: "allocator \<Rightarrow> nat \<Rightarrow> addr \<Rightarrow> bool option" where
  "class_list s i current =
     (if current = 0 then Some True
      else case load_block s current of None \<Rightarrow> None
        | Some b \<Rightarrow>
            if get_size_class (size_C b) \<noteq> i then Some False else class_list s i (next_C b))"

fun class_buckets :: "allocator \<Rightarrow> nat list \<Rightarrow> bool option" where
  "class_buckets s [] = Some True"
| "class_buckets s (i # is) =
     (case class_list s i (free_lists s i) of None \<Rightarrow> None
      | Some ok \<Rightarrow> if ok then class_buckets s is else Some False)"

definition buckets_by_class :: "allocator \<Rightarrow> bool option" where
  "buckets_by_class s = class_buckets s [0..<NUM_SIZE_CLASSES]"

text \<open>
  The walk of \<^verbatim>\<open>print_heap_map\<close> over the physical blocks, from \<open>current\<close> on: no free
  block is followed by a free block. \<open>before\<close> says whether the block before is free.
\<close>

partial_function (option) no_free_pair :: "allocator \<Rightarrow> addr \<Rightarrow> bool \<Rightarrow> bool option" where
  "no_free_pair s current before =
     (if \<not> current < heap s + HEAP_SIZE then Some True
      else case load_block s current of None \<Rightarrow> None
        | Some b \<Rightarrow>
            if sentinel_start b \<noteq> SENTINEL_VALUE then Some True
            else if before \<and> free b then Some False
            else (let nxt = current + sizeof_Block + size_C b + sizeof_BlockFooter in
                  if nxt \<ge> heap s + HEAP_SIZE \<or> nxt \<le> current then Some True
                  else no_free_pair s nxt (free b)))"

definition coalesced :: "allocator \<Rightarrow> bool option" where
  "coalesced s = no_free_pair s (heap s) False"

text \<open>Whether the two byte counters of the statistics are the sums over the lists.\<close>

definition free_bytes_exact :: "allocator \<Rightarrow> bool option" where
  "free_bytes_exact s = map_option (\<lambda>(c, t). t = free_bytes (stats s)) (free_tally s)"

definition allocated_bytes_exact :: "allocator \<Rightarrow> bool option" where
  "allocated_bytes_exact s = map_option (\<lambda>(c, t). t = allocated_bytes (stats s)) (used_tally s)"

text \<open>
  A run of the program: \<^verbatim>\<open>initialize()\<close> at start, the host giving the region at \<open>hr\<close>,
  and then the calls.
\<close>

definition session :: "addr \<Rightarrow> call list \<Rightarrow> allocator option" where
  "session hr cs = initialize (start hr True) \<bind> run cs"

text \<open>
  A call as the program sees it, with the pointer it returns (\<^verbatim>\<open>NULL\<close> for \<^verbatim>\<open>my_free\<close>),
  and the program that makes the calls \<open>cs\<close> and asks for \<^verbatim>\<open>my_malloc_size(p)\<close> after each
  of them: what each call returned and the size that was answered.
\<close>

fun returned :: "call \<Rightarrow> allocator \<Rightarrow> (addr \<times> allocator) option" where
  "returned (Allocate n) s = my_malloc_internal n ''main.c'' 0 s"
| "returned (Free p) s = map_option (Pair 0) (my_free p s)"
| "returned (Reallocate p n) s = my_realloc_internal p n ''main.c'' 0 s"
| "returned (Zero_allocate c n) s = my_calloc_internal c n ''main.c'' 0 s"

fun watch :: "addr \<Rightarrow> call list \<Rightarrow> allocator \<Rightarrow> (addr \<times> size_t) list option" where
  "watch p [] s = Some []"
| "watch p (c # cs) s = do {
     (q, s') \<leftarrow> returned c s;
     n \<leftarrow> my_malloc_size p s';
     rest \<leftarrow> watch p cs s';
     Some ((q, n) # rest)
   }"

text \<open>
  What a program stores and reads through the pointer \<open>p\<close>: the assignments
  \<^verbatim>\<open>p[i] = vs[i]\<close>, and the bytes \<open>p[0]\<close> to \<open>p[k - 1]\<close>.
\<close>

definition write_through :: "addr \<Rightarrow> byte list \<Rightarrow> allocator \<Rightarrow> allocator option" where
  "write_through p vs s = store_bytes p (length vs) (\<lambda>i. Some (vs ! i)) s"

definition readable :: "allocator \<Rightarrow> addr \<Rightarrow> nat \<Rightarrow> byte option list" where
  "readable s p k = map (\<lambda>i. load_byte s (p + of_nat i)) [0..<k]"

subsection \<open>Vocabulary of the placement proof\<close>

text \<open>The list from \<open>a\<close> along the \<open>next\<close> links, each block with its address.\<close>

fun chain :: "allocator \<Rightarrow> addr \<Rightarrow> (addr \<times> Block) list \<Rightarrow> bool" where
  "chain s a [] \<longleftrightarrow> a = 0"
| "chain s a ((x, b) # rest) \<longleftrightarrow> a \<noteq> 0 \<and> x = a \<and> load_block s a = Some b \<and> chain s (next_C b) rest"

text \<open>A block that can serve a request of \<open>sz\<close> bytes; a block with its footer.\<close>

definition fits :: "size_t \<Rightarrow> Block \<Rightarrow> bool" where
  "fits sz b \<longleftrightarrow> free b \<and> sz \<le> size_C b"

definition with_footer :: "allocator \<Rightarrow> addr \<times> Block \<Rightarrow> bool" where
  "with_footer s xb \<longleftrightarrow>
     load_footer s (fst xb + sizeof_Block + size_C (snd xb)) \<noteq> None \<and> size_C (snd xb) \<noteq> SIZE_MAX"

text \<open>The loop of \<^verbatim>\<open>find_best_fit_block\<close> over the blocks of a bucket given as a list.\<close>

fun scan_list :: "size_t \<Rightarrow> (addr \<times> Block) list \<Rightarrow> addr \<Rightarrow> size_t \<Rightarrow> addr" where
  "scan_list sz [] best_fit smallest_diff = best_fit"
| "scan_list sz ((x, b) # rest) best_fit smallest_diff =
     (if free b \<and> sz \<le> size_C b then
        (if size_C b - sz = 0 then x
         else if size_C b - sz < smallest_diff then scan_list sz rest x (size_C b - sz)
         else scan_list sz rest best_fit smallest_diff)
      else scan_list sz rest best_fit smallest_diff)"

text \<open>What \<^verbatim>\<open>find_best_fit_block\<close> returns when the bucket of the size is the list \<open>bs\<close>.\<close>

definition placement :: "size_t \<Rightarrow> allocator \<Rightarrow> (addr \<times> Block) list \<Rightarrow> addr" where
  "placement sz s bs =
     (if scan_list sz bs 0 SIZE_MAX \<noteq> 0 then scan_list sz bs 0 SIZE_MAX
      else first_nonempty s [get_size_class sz + 1 ..< NUM_SIZE_CLASSES])"

section \<open>Evaluation\<close>

lemmas store_defs = in_heap_def in_region_def overlap_def load_block_def load_footer_def
  load_byte_def byte_at_def drop_blocks_def drop_footers_def drop_bytes_def put_bytes_def
  zero_bytes_def copy_from_def store_block_def store_footer_def store_bytes_def update_block_def
  say_def HEAP_SIZE_def ALIGNMENT_def SIZE_MAX_def SENTINEL_VALUE_def FOOTER_SENTINEL_def
  GUARD_VALUE_def NUM_SIZE_CLASSES_def sizeof_Block_def sizeof_BlockFooter_def ALIGN_def
  MIN_BLOCK_SIZE_def get_size_class_def

lemmas op_defs = initialize_def set_block_footer_def add_to_free_list_def validate_block_def
  find_best_fit_block_def split_block_def remove_from_free_list_def unlink_neighbours_def
  add_to_used_list_def remove_from_used_list_def update_fragmentation_stats_def
  add_guard_bytes_def get_block_data_def my_malloc_internal_def get_prev_physical_block_def
  try_merge_with_neighbors_def my_free_def check_guard_bytes_def my_malloc_size_def
  my_realloc_internal_def memcpy_def my_calloc_internal_def
  scan_class.simps locality_walk.simps frag_list.simps tally_list.simps class_list.simps
  no_free_pair.simps free_tally_def used_tally_def buckets_by_class_def coalesced_def
  free_bytes_exact_def allocated_bytes_exact_def session_def start_def zero_stats_def
  Let_def upt_rec

text \<open>Congruence rules that make the simplifier run a program in its own order.\<close>

lemma bind_scrutinee: "m = m' \<Longrightarrow> Option.bind m f = Option.bind m' f"
  by simp

lemma Let_scrutinee: "a = b \<Longrightarrow> Let a f = Let b f"
  by simp

lemma initialize_start:
  "map_option (\<lambda>s. (initialized s, heap s)) (initialize (start 0x10000000 True))
     = Some (True, 0x10000000)"
  by (simp add: op_defs store_defs cong: bind_scrutinee Let_scrutinee)

section \<open>The claims\<close>

text \<open>
  C8, as amended. \<^verbatim>\<open>my_free(NULL)\<close> leaves an initialized allocator as it is: the region,
  the lists, the statistics, the leak records and the log. (On an allocator that is not
  initialized the call runs \<^verbatim>\<open>initialize()\<close> first.)
\<close>

theorem free_null_initialized: "initialized s \<Longrightarrow> my_free 0 s = Some s"
  by (simp add: my_free_def)

theorem free_null_initialized_witness:
  "initialize (start 0x10000000 True) \<bind> my_free 0 = initialize (start 0x10000000 True)
   \<and> map_option initialized (initialize (start 0x10000000 True)) = Some True"
proof -
  obtain s where s: "initialize (start 0x10000000 True) = Some s" and i: "initialized s"
    using initialize_start by auto
  from free_null_initialized [OF i] s show ?thesis
    using i by simp
qed

text \<open>
  C8 as stated fails at the start of the program: \<^verbatim>\<open>my_free(NULL)\<close> acquires and
  formats the region, so the state it returns is not the one it was called in.
\<close>

theorem free_null_uninitialized_counterexample:
  "my_free 0 (start 0x10000000 True) \<noteq> Some (start 0x10000000 True)"
proof
  assume "my_free 0 (start 0x10000000 True) = Some (start 0x10000000 True)"
  then have "map_option initialized (initialize (start 0x10000000 True))
      = Some (initialized (start 0x10000000 True))"
    by (simp add: my_free_def start_def)
  then show False
    using initialize_start by (auto simp: start_def)
qed

text \<open>
  C9. When \<open>count > 0\<close> and \<open>size > SIZE_MAX / count\<close>, \<^verbatim>\<open>my_calloc_internal\<close> returns
  \<^verbatim>\<open>NULL\<close> and the whole allocator state is as before.
\<close>

theorem calloc_overflow_guard:
  "0 < count \<Longrightarrow> SIZE_MAX div count < sz \<Longrightarrow> my_calloc_internal count sz file line s = Some (0, s)"
  by (simp add: my_calloc_internal_def)

theorem calloc_overflow_guard_witness:
  "(0 :: size_t) < SIZE_MAX \<and> SIZE_MAX div SIZE_MAX < (2 :: size_t)
   \<and> my_calloc_internal SIZE_MAX 2 ''main.c'' 0 (start 0x10000000 True)
       = Some (0, start 0x10000000 True)"
proof -
  have a: "(0 :: size_t) < SIZE_MAX" by (simp add: SIZE_MAX_def)
  have b: "SIZE_MAX div SIZE_MAX < (2 :: size_t)" by (simp add: SIZE_MAX_def)
  from calloc_overflow_guard [OF a b] a b show ?thesis by simp
qed

text \<open>
  C10. \<^verbatim>\<open>my_calloc_internal(0, size)\<close> returns \<^verbatim>\<open>NULL\<close> for every \<open>size\<close>: the guard is
  skipped, the product is 0, and \<^verbatim>\<open>my_malloc_internal\<close> returns \<^verbatim>\<open>NULL\<close> right after its
  lazy \<^verbatim>\<open>initialize()\<close>, whose state is the one left behind.
\<close>

theorem calloc_zero_count:
  "my_calloc_internal 0 sz file line s
     = map_option (Pair 0) (if initialized s then Some s else initialize s)"
  by (cases "initialize s") (simp_all add: my_calloc_internal_def my_malloc_internal_def)

theorem calloc_zero_count_witness:
  "map_option (\<lambda>(p, s). (p, initialized s))
     (my_calloc_internal 0 7 ''main.c'' 0 (start 0x10000000 True)) = Some (0, True)"
proof -
  obtain s where s: "initialize (start 0x10000000 True) = Some s" and i: "initialized s"
    using initialize_start by auto
  have "\<not> initialized (start 0x10000000 True)" by (simp add: start_def)
  with calloc_zero_count [of 7 "''main.c''" 0 "start 0x10000000 True"] s i
  show ?thesis by simp
qed

subsection \<open>Double free\<close>

lemma validate_block_log:
  "validate_block a l s = Some s1 \<Longrightarrow> \<exists>ds. s1 = s\<lparr>stderr_log := stderr_log s @ ds\<rparr>"
  apply (simp add: validate_block_def say_def Let_def split: if_splits option.splits)
  apply (auto intro: exI [of _ "[]"])
  done

lemma in_region_bounds:
  "in_region s a n \<Longrightarrow> 0 < n \<Longrightarrow> a \<noteq> 0 \<and> \<not> a < heap s \<and> a < heap s + HEAP_SIZE"
  apply (simp add: in_region_def in_heap_def HEAP_SIZE_def word_less_nat_alt word_le_nat_alt unat_word_ariths)
  apply (auto simp: unat_eq_0)
  done

lemma load_block_region: "load_block s a = Some b \<Longrightarrow> in_region s a 64"
  by (simp add: load_block_def split: if_splits)

lemma load_footer_region: "load_footer s a = Some f \<Longrightarrow> in_region s a 16"
  by (simp add: load_footer_def split: if_splits)

lemma validate_block_returns:
  assumes "load_block s a = Some b" and "load_footer s (a + sizeof_Block + size_C b) \<noteq> None"
  shows "\<exists>ds. validate_block a l s = Some (s\<lparr>stderr_log := stderr_log s @ ds\<rparr>)"
proof -
  from assms(2) obtain f where f: "load_footer s (a + sizeof_Block + size_C b) = Some f"
    by auto
  have "a \<noteq> 0" "\<not> a < heap s" "a < heap s + HEAP_SIZE"
    using in_region_bounds [OF load_block_region [OF assms(1)]] by simp_all
  then have "validate_block a l s \<noteq> None"
    using assms(1) f by (simp add: validate_block_def Let_def)
  then show ?thesis
    using validate_block_log by blast
qed

text \<open>
  C4. When the header of the block of \<open>p\<close> says \<open>free\<close> (and the block has its footer,
  which \<^verbatim>\<open>validate_block\<close> reads), \<^verbatim>\<open>my_free(p)\<close> on an initialized allocator returns
  with the allocator as it was, but for the lines added to stderr, the last of which is
  the double-free diagnostic: no block, list, counter or leak record has changed.
\<close>

theorem double_free_no_mutation:
  assumes "initialized s" and "p \<noteq> 0"
    and "load_block s (p - ALIGNMENT - sizeof_Block) = Some b" and "free b"
    and "load_footer s (p - ALIGNMENT + size_C b) \<noteq> None"
  shows "\<exists>ds. my_free p s
           = Some (s\<lparr>stderr_log := stderr_log s @ ds @ [Double_free (p - ALIGNMENT) (alloc_id b)]\<rparr>)"
proof -
  have "load_footer s (p - ALIGNMENT - sizeof_Block + sizeof_Block + size_C b) \<noteq> None"
    using assms(5) by simp
  from validate_block_returns [OF assms(3) this]
  obtain ds where v: "validate_block (p - ALIGNMENT - sizeof_Block) ''my_free'' s
      = Some (s\<lparr>stderr_log := stderr_log s @ ds\<rparr>)"
    by blast
  have l: "load_block (s\<lparr>stderr_log := stderr_log s @ ds\<rparr>) (p - ALIGNMENT - sizeof_Block) = Some b"
    using assms(3) by (simp add: load_block_def in_region_def split: if_splits)
  have "my_free p s = Some (s\<lparr>stderr_log := stderr_log s @ ds @ [Double_free (p - ALIGNMENT) (alloc_id b)]\<rparr>)"
    using assms(1,2,4) v l by (simp add: my_free_def Let_def say_def)
  then show ?thesis ..
qed

text \<open>The program that allocates one byte and frees it.\<close>

lemma freed_once:
  "map_option (\<lambda>s. (initialized s, load_block s 0x10000000, load_footer s 0x100FFFF0,
       free_lists s 1, buckets_by_class s))
     (session 0x10000000 [Allocate 1, Free 0x10000050])
   = Some (True,
       Some \<lparr>sentinel_start = 0xCAFEBABE, size_C = 1048496, free = True, prev = 0, next_C = 0,
             request_size = 1, address_tag = 0, alloc_id = 1, sentinel_end = 0xCAFEBABE\<rparr>,
       Some \<lparr>footer_size = 1048496, footer_free = True, footer_sentinel = 0xDEADBEEF\<rparr>,
       0x10000000, Some False)"
  by (simp add: op_defs store_defs cong: bind_scrutinee Let_scrutinee)

text \<open>
  C1. The code breaks the claim: \<^verbatim>\<open>my_free\<close> puts the block into the bucket of its
  size (48, class 1), then \<^verbatim>\<open>try_merge_with_neighbors\<close> grows it to 1048496 bytes
  (class 7) and leaves it where it is.
\<close>

theorem free_keeps_merged_block_in_old_bucket:
  "session 0x10000000 [Allocate 1, Free 0x10000050] \<bind> buckets_by_class = Some False"
  using freed_once by (cases "session 0x10000000 [Allocate 1, Free 0x10000050]") auto

text \<open>The program that allocates one byte.\<close>

lemma allocated_once:
  "map_option (\<lambda>s. (initialized s, free_tally s, free_bytes (stats s), used_tally s,
       allocated_bytes (stats s), free_lists s 7, load_block s 0x10000080,
       load_footer s 0x100FFFF0))
     (session 0x10000000 [Allocate 1])
   = Some (True, Some (1, 1048368), 1048448, Some (1, 48), 48, 0x10000080,
       Some \<lparr>sentinel_start = 0xCAFEBABE, size_C = 1048368, free = True, prev = 0, next_C = 0,
             request_size = 0, address_tag = 0, alloc_id = 0, sentinel_end = 0xCAFEBABE\<rparr>,
       Some \<lparr>footer_size = 1048368, footer_free = True, footer_sentinel = 0xDEADBEEF\<rparr>)"
  by (simp add: op_defs store_defs cong: bind_scrutinee Let_scrutinee)

text \<open>
  C2. The code breaks the claim in its half about \<open>free_bytes\<close>. The first allocation
  splits the one block of the region: \<^verbatim>\<open>split_block\<close> spends 80 bytes on the header and
  footer of the new free block and adjusts \<open>free_blocks\<close> only, and \<^verbatim>\<open>my_malloc_internal\<close>
  takes the 48 bytes of the block it hands out from \<open>free_bytes\<close>. The one free block
  then holds 1048368 bytes and \<open>free_bytes\<close> is 1048448; \<open>allocated_bytes\<close> is the sum
  over the used list, 48.
\<close>

theorem split_block_leaves_free_bytes_stale:
  "session 0x10000000 [Allocate 1] \<bind>
     (\<lambda>s. Some (allocated_bytes_exact s, free_bytes_exact s, free_tally s, free_bytes (stats s)))
   = Some (Some True, Some False, Some (1, 1048368), 1048448)"
  using allocated_once
  by (cases "session 0x10000000 [Allocate 1]")
     (auto simp: free_bytes_exact_def allocated_bytes_exact_def)

text \<open>
  C3. The code breaks the claim: shrinking a block of 1040 bytes in place splits off a
  free tail of 848 bytes in front of the free rest of the region, and nothing merges them.
\<close>

theorem realloc_shrink_leaves_free_pair:
  "session 0x10000000 [Allocate 1000, Reallocate 0x10000050 80] \<bind> coalesced = Some False"
  by (simp add: op_defs store_defs cong: bind_scrutinee Let_scrutinee)

text \<open>C4 at the second free of the program that allocates one byte and frees it twice.\<close>

theorem double_free_no_mutation_witness:
  "\<exists>ds. my_free 0x10000050 (the (session 0x10000000 [Allocate 1, Free 0x10000050]))
     = Some ((the (session 0x10000000 [Allocate 1, Free 0x10000050]))
         \<lparr>stderr_log := stderr_log (the (session 0x10000000 [Allocate 1, Free 0x10000050]))
            @ ds @ [Double_free 0x10000040 1]\<rparr>)"
proof -
  define s where "s = the (session 0x10000000 [Allocate 1, Free 0x10000050])"
  define b where "b = \<lparr>sentinel_start = 0xCAFEBABE, size_C = 1048496, free = True, prev = 0,
    next_C = 0, request_size = 1, address_tag = 0, alloc_id = 1 :: uint32_t, sentinel_end = 0xCAFEBABE\<rparr>"
  from freed_once have i: "initialized s" and l: "load_block s 0x10000000 = Some b"
    and f: "load_footer s 0x100FFFF0 \<noteq> None"
    by (auto simp: s_def b_def)
  have 1: "load_block s (0x10000050 - ALIGNMENT - sizeof_Block) = Some b"
    using l by (simp add: ALIGNMENT_def sizeof_Block_def)
  have 2: "load_footer s (0x10000050 - ALIGNMENT + size_C b) \<noteq> None"
    using f by (simp add: ALIGNMENT_def b_def)
  have 3: "free b" by (simp add: b_def)
  from double_free_no_mutation [OF i _ 1 3 2]
  show ?thesis by (simp add: s_def b_def ALIGNMENT_def)
qed


subsection \<open>Placement\<close>

lemma load_block_log [simp]: "load_block (s\<lparr>stderr_log := l\<rparr>) a = load_block s a"
  by (simp add: load_block_def in_region_def)

lemma chain_log [simp]: "chain (s\<lparr>stderr_log := l\<rparr>) a bs = chain s a bs"
  by (induction bs arbitrary: a) auto

lemma with_footer_log [simp]: "with_footer (s\<lparr>stderr_log := l\<rparr>) xb = with_footer s xb"
  by (simp add: with_footer_def load_footer_def in_region_def)

lemma scan_class_list:
  "chain s current bs \<Longrightarrow> \<forall>xb \<in> set bs. with_footer s xb \<Longrightarrow>
   \<exists>ds. scan_class sz current best_fit smallest_diff s
     = Some (scan_list sz bs best_fit smallest_diff, s\<lparr>stderr_log := stderr_log s @ ds\<rparr>)"
proof (induction bs arbitrary: current best_fit smallest_diff s)
  case Nil
  then show ?case
    by (subst scan_class.simps) (auto intro: exI [of _ "[]"])
next
  case (Cons xb bs)
  obtain x b where xb: "xb = (x, b)" by (cases xb)
  from Cons.prems xb have c: "current \<noteq> 0" "x = current" "load_block s current = Some b"
    "chain s (next_C b) bs" by simp_all
  from Cons.prems xb have f: "load_footer s (current + sizeof_Block + size_C b) \<noteq> None"
    using c by (simp add: with_footer_def)
  from validate_block_returns [OF c(3) f]
  obtain ds where v: "validate_block current ''find_best_fit'' s
      = Some (s\<lparr>stderr_log := stderr_log s @ ds\<rparr>)" by blast
  let ?s1 = "s\<lparr>stderr_log := stderr_log s @ ds\<rparr>"
  have l: "load_block ?s1 current = Some b"
    using c(3) by simp
  have c1: "chain ?s1 (next_C b) bs" using c(4) by simp
  have w1: "\<forall>xb \<in> set bs. with_footer ?s1 xb" using Cons.prems(2) by simp
  have rec: "\<exists>ds'. scan_class sz (next_C b) bf sd ?s1
      = Some (scan_list sz bs bf sd, s\<lparr>stderr_log := stderr_log s @ ds'\<rparr>)" for bf sd
  proof -
    from Cons.IH [OF c1 w1, of bf sd]
    obtain d2 where "scan_class sz (next_C b) bf sd ?s1
      = Some (scan_list sz bs bf sd, ?s1\<lparr>stderr_log := stderr_log ?s1 @ d2\<rparr>)" by blast
    then have "scan_class sz (next_C b) bf sd ?s1
      = Some (scan_list sz bs bf sd, s\<lparr>stderr_log := stderr_log s @ (ds @ d2)\<rparr>)" by simp
    then show ?thesis by blast
  qed
  show ?case
    apply (subst scan_class.simps)
    using c v l rec [of current "size_C b - sz"] rec [of best_fit smallest_diff] xb
    apply (auto simp del: append_assoc)
    done
qed

lemma scan_list_best:
  "(scan_list sz bs best_fit smallest_diff = best_fit \<and>
      (\<forall>xb \<in> set bs. fits sz (snd xb) \<longrightarrow>
         smallest_diff \<le> size_C (snd xb) - sz \<and> size_C (snd xb) \<noteq> sz))
   \<or> (\<exists>b. (scan_list sz bs best_fit smallest_diff, b) \<in> set bs \<and> fits sz b
         \<and> (size_C b - sz < smallest_diff \<or> size_C b = sz)
         \<and> (\<forall>xb \<in> set bs. fits sz (snd xb) \<longrightarrow> size_C b - sz \<le> size_C (snd xb) - sz))"
proof (induction bs arbitrary: best_fit smallest_diff)
  case Nil
  then show ?case by simp
next
  case (Cons xb bs)
  obtain x b where xb: "xb = (x, b)" by (cases xb)
  show ?case
  proof (cases "fits sz b")
    case False
    with Cons.IH [of best_fit smallest_diff] xb show ?thesis
      by (auto simp: fits_def)
  next
    case True
    then have fb: "free b" "sz \<le> size_C b" by (simp_all add: fits_def)
    show ?thesis
    proof (cases "size_C b = sz")
      case True
      with fb xb \<open>fits sz b\<close> show ?thesis
        by (intro disjI2 exI [of _ b]) auto
    next
      case ne: False
      show ?thesis
      proof (cases "size_C b - sz < smallest_diff")
        case True
        then have step: "scan_list sz (xb # bs) best_fit smallest_diff
            = scan_list sz bs x (size_C b - sz)"
          using xb fb ne by simp
        from Cons.IH [of x "size_C b - sz"] show ?thesis
        proof
          assume "scan_list sz bs x (size_C b - sz) = x \<and>
            (\<forall>xb\<in>set bs. fits sz (snd xb) \<longrightarrow>
               size_C b - sz \<le> size_C (snd xb) - sz \<and> size_C (snd xb) \<noteq> sz)"
          with step True xb \<open>fits sz b\<close> show ?thesis
            by (intro disjI2 exI [of _ b]) auto
        next
          assume "\<exists>b'. (scan_list sz bs x (size_C b - sz), b') \<in> set bs \<and> fits sz b'
            \<and> (size_C b' - sz < size_C b - sz \<or> size_C b' = sz)
            \<and> (\<forall>xb\<in>set bs. fits sz (snd xb) \<longrightarrow> size_C b' - sz \<le> size_C (snd xb) - sz)"
          then obtain b' where b': "(scan_list sz bs x (size_C b - sz), b') \<in> set bs" "fits sz b'"
            "size_C b' - sz < size_C b - sz \<or> size_C b' = sz"
            "\<forall>xb\<in>set bs. fits sz (snd xb) \<longrightarrow> size_C b' - sz \<le> size_C (snd xb) - sz"
            by blast
          from b'(3) True have "size_C b' - sz < smallest_diff \<or> size_C b' = sz"
            by auto
          moreover from b'(3) have "size_C b' - sz \<le> size_C b - sz"
            by auto
          ultimately show ?thesis
            using step b' xb by (intro disjI2 exI [of _ b']) auto
        qed
      next
        case False
        then have step: "scan_list sz (xb # bs) best_fit smallest_diff
            = scan_list sz bs best_fit smallest_diff"
          using xb fb ne by simp
        from Cons.IH [of best_fit smallest_diff] show ?thesis
        proof
          assume "scan_list sz bs best_fit smallest_diff = best_fit \<and>
            (\<forall>xb\<in>set bs. fits sz (snd xb) \<longrightarrow>
               smallest_diff \<le> size_C (snd xb) - sz \<and> size_C (snd xb) \<noteq> sz)"
          with step False ne xb show ?thesis
            by (intro disjI1) auto
        next
          assume "\<exists>b'. (scan_list sz bs best_fit smallest_diff, b') \<in> set bs \<and> fits sz b'
            \<and> (size_C b' - sz < smallest_diff \<or> size_C b' = sz)
            \<and> (\<forall>xb\<in>set bs. fits sz (snd xb) \<longrightarrow> size_C b' - sz \<le> size_C (snd xb) - sz)"
          then obtain b' where b': "(scan_list sz bs best_fit smallest_diff, b') \<in> set bs"
            "fits sz b'" "size_C b' - sz < smallest_diff \<or> size_C b' = sz"
            "\<forall>xb\<in>set bs. fits sz (snd xb) \<longrightarrow> size_C b' - sz \<le> size_C (snd xb) - sz"
            by blast
          from b'(3) False have "size_C b' - sz \<le> size_C b - sz"
            by auto
          then show ?thesis
            using step b' xb by (intro disjI2 exI [of _ b']) auto
        qed
      qed
    qed
  qed
qed

lemma first_nonempty_find:
  "first_nonempty s cs
     = (case find (\<lambda>c. free_lists s c \<noteq> 0) cs of None \<Rightarrow> 0 | Some c \<Rightarrow> free_lists s c)"
  by (induction cs) auto

lemma first_nonempty_upt:
  "(first_nonempty s [i..<j] = 0 \<and> (\<forall>c. i \<le> c \<and> c < j \<longrightarrow> free_lists s c = 0))
   \<or> (\<exists>c. i \<le> c \<and> c < j \<and> first_nonempty s [i..<j] = free_lists s c \<and> free_lists s c \<noteq> 0
         \<and> (\<forall>c'. i \<le> c' \<and> c' < c \<longrightarrow> free_lists s c' = 0))"
proof (cases "find (\<lambda>c. free_lists s c \<noteq> 0) [i..<j]")
  case None
  then have "\<forall>c. i \<le> c \<and> c < j \<longrightarrow> free_lists s c = 0"
    by (auto simp: find_None_iff)
  with None show ?thesis
    by (simp add: first_nonempty_find)
next
  case (Some c)
  then obtain k where k: "k < j - i" "free_lists s (i + k) \<noteq> 0" "c = i + k"
    "\<forall>m<k. free_lists s ([i..<j] ! m) = 0"
    by (auto simp: find_Some_iff)
  have "\<forall>c'. i \<le> c' \<and> c' < c \<longrightarrow> free_lists s c' = 0"
  proof (intro allI impI)
    fix c' assume "i \<le> c' \<and> c' < c"
    then have c': "i \<le> c'" "c' < c" by simp_all
    then have "c' - i < k" using k(3) by linarith
    with k(4) have "free_lists s ([i..<j] ! (c' - i)) = 0" by blast
    moreover have "[i..<j] ! (c' - i) = c'"
      using c' k(1,3) by simp
    ultimately show "free_lists s c' = 0" by simp
  qed
  with Some k show ?thesis
    by (intro disjI2 exI [of _ c]) (auto simp: first_nonempty_find)
qed

lemma first_nonempty_cong:
  "free_lists s' = free_lists s \<Longrightarrow> first_nonempty s' cs = first_nonempty s cs"
  by (induction cs) auto

lemma find_best_fit_block_placement:
  assumes "chain s (free_lists s (get_size_class sz)) bs" and "\<forall>xb \<in> set bs. with_footer s xb"
  shows "\<exists>ds. find_best_fit_block sz s
           = Some (placement sz s bs, s\<lparr>stderr_log := stderr_log s @ ds\<rparr>)"
proof -
  from scan_class_list [OF assms, of sz 0 SIZE_MAX]
  obtain ds where "scan_class sz (free_lists s (get_size_class sz)) 0 SIZE_MAX s
      = Some (scan_list sz bs 0 SIZE_MAX, s\<lparr>stderr_log := stderr_log s @ ds\<rparr>)"
    by blast
  then have "find_best_fit_block sz s
      = Some (placement sz s bs, s\<lparr>stderr_log := stderr_log s @ ds\<rparr>)"
    by (simp add: find_best_fit_block_def placement_def Let_def
        first_nonempty_cong [of "s\<lparr>stderr_log := stderr_log s @ ds\<rparr>" s])
  then show ?thesis ..
qed

lemma chain_nonzero: "chain s a bs \<Longrightarrow> (x, b) \<in> set bs \<Longrightarrow> x \<noteq> 0"
  by (induction bs arbitrary: a) auto

lemma load_block_stats [simp]: "load_block (s\<lparr>stats := st\<rparr>) a = load_block s a"
  by (simp add: load_block_def in_region_def)

lemma chain_stats [simp]: "chain (s\<lparr>stats := st\<rparr>) a bs = chain s a bs"
  by (induction bs arbitrary: a) auto

lemma with_footer_stats [simp]: "with_footer (s\<lparr>stats := st\<rparr>) xb = with_footer s xb"
  by (simp add: with_footer_def load_footer_def in_region_def)

lemma diff_SIZE_MAX: "sz \<le> b \<Longrightarrow> SIZE_MAX \<le> b - sz \<Longrightarrow> b = SIZE_MAX" for b sz :: size_t
proof -
  assume "sz \<le> b" and m: "SIZE_MAX \<le> b - sz"
  then have "b - sz \<le> b" by (simp add: word_sub_le)
  with m have "SIZE_MAX \<le> b" by simp
  moreover have "b \<le> SIZE_MAX"
    by (simp add: SIZE_MAX_def word_le_nat_alt) (use unsigned_less [of b, where 'a = nat] in simp)
  ultimately show ?thesis by simp
qed

text \<open>
  C5. When the bucket of the class of \<open>sz\<close> is the list \<open>bs\<close> of blocks with their
  footers, \<^verbatim>\<open>find_best_fit_block(sz)\<close> returns, changing nothing but the log. If a free
  block of the bucket is large enough, it returns one whose \<open>size - sz\<close> is the least among
  them (so an exact fit whenever there is one). If none is, it returns the head of the
  first larger class whose list is not empty, whatever its size, and \<^verbatim>\<open>NULL\<close> when all
  are empty; on \<^verbatim>\<open>NULL\<close>, \<^verbatim>\<open>my_malloc_internal\<close> returns \<^verbatim>\<open>NULL\<close> with
  \<open>failed_allocations\<close> one higher.
\<close>

theorem best_fit_placement:
  assumes ch: "chain s (free_lists s (get_size_class sz)) bs"
    and wf: "\<forall>xb \<in> set bs. with_footer s xb"
  shows "\<exists>r ds. find_best_fit_block sz s = Some (r, s\<lparr>stderr_log := stderr_log s @ ds\<rparr>)
     \<and> ((\<exists>xb \<in> set bs. fits sz (snd xb)) \<longrightarrow>
          (\<exists>b. (r, b) \<in> set bs \<and> fits sz b
             \<and> (\<forall>xb \<in> set bs. fits sz (snd xb) \<longrightarrow> size_C b - sz \<le> size_C (snd xb) - sz)))
     \<and> (\<not> (\<exists>xb \<in> set bs. fits sz (snd xb)) \<longrightarrow>
          (r = 0 \<and> (\<forall>c. get_size_class sz < c \<and> c < NUM_SIZE_CLASSES \<longrightarrow> free_lists s c = 0))
          \<or> (\<exists>c. get_size_class sz < c \<and> c < NUM_SIZE_CLASSES \<and> r = free_lists s c \<and> r \<noteq> 0
                \<and> (\<forall>c'. get_size_class sz < c' \<and> c' < c \<longrightarrow> free_lists s c' = 0)))
     \<and> (r = 0 \<longrightarrow> initialized s \<longrightarrow> n \<noteq> 0 \<longrightarrow> sz = ALIGN (n + ALIGNMENT * 2) \<longrightarrow>
          (\<exists>ds'. my_malloc_internal n file line s
             = Some (0, s\<lparr>stats := (stats s)
                  \<lparr>total_allocations := total_allocations (stats s) + 1,
                   requested_bytes := requested_bytes (stats s) + n,
                   failed_allocations := failed_allocations (stats s) + 1\<rparr>,
                 stderr_log := stderr_log s @ ds'\<rparr>)))"
proof -
  let ?r = "placement sz s bs"
  from find_best_fit_block_placement [OF ch wf]
  obtain ds where run: "find_best_fit_block sz s
      = Some (?r, s\<lparr>stderr_log := stderr_log s @ ds\<rparr>)" by blast
  have nofit: "\<not> (\<exists>xb \<in> set bs. fits sz (snd xb))"
    if "\<forall>xb\<in>set bs. fits sz (snd xb) \<longrightarrow> SIZE_MAX \<le> size_C (snd xb) - sz \<and> size_C (snd xb) \<noteq> sz"
  proof
    assume "\<exists>xb \<in> set bs. fits sz (snd xb)"
    then obtain xb where xb: "xb \<in> set bs" "fits sz (snd xb)" by blast
    with that have "SIZE_MAX \<le> size_C (snd xb) - sz" by blast
    with xb(2) have "size_C (snd xb) = SIZE_MAX"
      by (auto simp: fits_def intro: diff_SIZE_MAX)
    with wf xb(1) show False by (simp add: with_footer_def)
  qed
  have fit: "(\<exists>xb \<in> set bs. fits sz (snd xb)) \<longrightarrow>
      (\<exists>b. (?r, b) \<in> set bs \<and> fits sz b
         \<and> (\<forall>xb \<in> set bs. fits sz (snd xb) \<longrightarrow> size_C b - sz \<le> size_C (snd xb) - sz))"
  proof
    assume ex: "\<exists>xb \<in> set bs. fits sz (snd xb)"
    from scan_list_best [of sz bs 0 SIZE_MAX] nofit ex
    have "\<exists>b. (scan_list sz bs 0 SIZE_MAX, b) \<in> set bs \<and> fits sz b
         \<and> (\<forall>xb \<in> set bs. fits sz (snd xb) \<longrightarrow> size_C b - sz \<le> size_C (snd xb) - sz)"
      by blast
    then obtain b where b: "(scan_list sz bs 0 SIZE_MAX, b) \<in> set bs" "fits sz b"
      "\<forall>xb \<in> set bs. fits sz (snd xb) \<longrightarrow> size_C b - sz \<le> size_C (snd xb) - sz"
      by blast
    from chain_nonzero [OF ch b(1)] have "?r = scan_list sz bs 0 SIZE_MAX"
      by (simp add: placement_def)
    with b show "\<exists>b. (?r, b) \<in> set bs \<and> fits sz b
         \<and> (\<forall>xb \<in> set bs. fits sz (snd xb) \<longrightarrow> size_C b - sz \<le> size_C (snd xb) - sz)"
      by auto
  qed
  have promote: "\<not> (\<exists>xb \<in> set bs. fits sz (snd xb)) \<longrightarrow>
      (?r = 0 \<and> (\<forall>c. get_size_class sz < c \<and> c < NUM_SIZE_CLASSES \<longrightarrow> free_lists s c = 0))
      \<or> (\<exists>c. get_size_class sz < c \<and> c < NUM_SIZE_CLASSES \<and> ?r = free_lists s c \<and> ?r \<noteq> 0
            \<and> (\<forall>c'. get_size_class sz < c' \<and> c' < c \<longrightarrow> free_lists s c' = 0))"
  proof
    assume no: "\<not> (\<exists>xb \<in> set bs. fits sz (snd xb))"
    from scan_list_best [of sz bs 0 SIZE_MAX] no have "scan_list sz bs 0 SIZE_MAX = 0"
      by fastforce
    then have r: "?r = first_nonempty s [get_size_class sz + 1 ..< NUM_SIZE_CLASSES]"
      by (simp add: placement_def)
    from first_nonempty_upt [of s "get_size_class sz + 1" NUM_SIZE_CLASSES]
    show "(?r = 0 \<and> (\<forall>c. get_size_class sz < c \<and> c < NUM_SIZE_CLASSES \<longrightarrow> free_lists s c = 0))
      \<or> (\<exists>c. get_size_class sz < c \<and> c < NUM_SIZE_CLASSES \<and> ?r = free_lists s c \<and> ?r \<noteq> 0
            \<and> (\<forall>c'. get_size_class sz < c' \<and> c' < c \<longrightarrow> free_lists s c' = 0))"
      unfolding r by (simp add: Suc_le_eq) metis
  qed
  have fail: "?r = 0 \<longrightarrow> initialized s \<longrightarrow> n \<noteq> 0 \<longrightarrow> sz = ALIGN (n + ALIGNMENT * 2) \<longrightarrow>
      (\<exists>ds'. my_malloc_internal n file line s
         = Some (0, s\<lparr>stats := (stats s)
              \<lparr>total_allocations := total_allocations (stats s) + 1,
               requested_bytes := requested_bytes (stats s) + n,
               failed_allocations := failed_allocations (stats s) + 1\<rparr>,
             stderr_log := stderr_log s @ ds'\<rparr>))"
  proof (intro impI)
    assume r0: "?r = 0" and i: "initialized s" and n: "n \<noteq> 0" and sz: "sz = ALIGN (n + ALIGNMENT * 2)"
    let ?s1 = "s\<lparr>stats := (stats s)\<lparr>total_allocations := total_allocations (stats s) + 1,
        requested_bytes := requested_bytes (stats s) + n\<rparr>\<rparr>"
    have ch1: "chain ?s1 (free_lists ?s1 (get_size_class sz)) bs" using ch by simp
    have wf1: "\<forall>xb \<in> set bs. with_footer ?s1 xb" using wf by simp
    from find_best_fit_block_placement [OF ch1 wf1]
    obtain ds' where run1: "find_best_fit_block sz ?s1
        = Some (placement sz ?s1 bs, ?s1\<lparr>stderr_log := stderr_log ?s1 @ ds'\<rparr>)" by blast
    have "placement sz ?s1 bs = ?r"
      by (simp add: placement_def first_nonempty_cong [of ?s1 s])
    with run1 r0 have "find_best_fit_block (ALIGN (n + ALIGNMENT * 2)) ?s1
        = Some (0, ?s1\<lparr>stderr_log := stderr_log ?s1 @ ds'\<rparr>)"
      using sz by simp
    then have "my_malloc_internal n file line s
         = Some (0, s\<lparr>stats := (stats s)
              \<lparr>total_allocations := total_allocations (stats s) + 1,
               requested_bytes := requested_bytes (stats s) + n,
               failed_allocations := failed_allocations (stats s) + 1\<rparr>,
             stderr_log := stderr_log s @ ds'\<rparr>)"
      using i n by (simp add: my_malloc_internal_def Let_def)
    then show "\<exists>ds'. my_malloc_internal n file line s
         = Some (0, s\<lparr>stats := (stats s)
              \<lparr>total_allocations := total_allocations (stats s) + 1,
               requested_bytes := requested_bytes (stats s) + n,
               failed_allocations := failed_allocations (stats s) + 1\<rparr>,
             stderr_log := stderr_log s @ ds'\<rparr>)" ..
  qed
  from run fit promote fail show ?thesis
    by blast
qed


text \<open>C5 in the state after one allocation, for a request of 4096 bytes.\<close>

theorem best_fit_placement_witness:
  "\<exists>ds. find_best_fit_block 4096 (the (session 0x10000000 [Allocate 1]))
     = Some (0x10000080, (the (session 0x10000000 [Allocate 1]))
         \<lparr>stderr_log := stderr_log (the (session 0x10000000 [Allocate 1])) @ ds\<rparr>)"
proof -
  define s where "s = the (session 0x10000000 [Allocate 1])"
  define b where "b = \<lparr>sentinel_start = 0xCAFEBABE, size_C = 1048368, free = True, prev = 0,
    next_C = 0, request_size = 0 :: uint32_t, address_tag = 0, alloc_id = 0 :: uint32_t,
    sentinel_end = 0xCAFEBABE\<rparr>"
  from allocated_once have h: "free_lists s 7 = 0x10000080" and l: "load_block s 0x10000080 = Some b"
    and f: "load_footer s 0x100FFFF0 \<noteq> None"
    by (auto simp: s_def b_def)
  have c: "get_size_class 4096 = 7" by (simp add: get_size_class_def)
  have ch: "chain s (free_lists s (get_size_class 4096)) [(0x10000080, b)]"
    using h l by (simp add: c b_def)
  have wf: "\<forall>xb \<in> set [(0x10000080, b)]. with_footer s xb"
    using f by (simp add: with_footer_def b_def sizeof_Block_def SIZE_MAX_def)
  have ft: "fits 4096 b" by (simp add: fits_def b_def)
  from best_fit_placement [OF ch wf] ft show ?thesis
    unfolding s_def by fastforce
qed

subsection \<open>The size of a block in use\<close>

text \<open>
  C7. The code breaks the claim: \<^verbatim>\<open>my_malloc_size(p)\<close> changes while \<open>p\<close> is in use. After
  \<^verbatim>\<open>my_malloc(100)\<close> and \<^verbatim>\<open>my_free\<close> the merged block is the head of bucket 3;
  \<^verbatim>\<open>p = my_malloc(1)\<close> finds it there from class 1, splits it to 48 bytes and unlinks it by
  the class of its new size, so that bucket 3 keeps it. \<^verbatim>\<open>my_malloc(200)\<close> takes its block
  from bucket 7. \<^verbatim>\<open>my_malloc(40)\<close> then finds bucket 2 empty and takes the head of bucket 3,
  which \<^verbatim>\<open>find_best_fit_block\<close> tests neither for \<^verbatim>\<open>free\<close> nor for its size: the call
  returns \<open>p\<close> a second time and \<^verbatim>\<open>my_malloc_size(p)\<close>, which was 1, is 40, with no
  \<^verbatim>\<open>my_free(p)\<close> in between.
\<close>

theorem malloc_hands_out_block_in_use:
  "initialize (start 0x10000000 True) \<bind>
     watch 0x10000050 [Allocate 100, Free 0x10000050, Allocate 1, Allocate 200, Allocate 40]
   = Some [(0x10000050, 100), (0, 0), (0x10000050, 1), (0x100000D0, 1), (0x10000050, 40)]"
  by (simp add: op_defs store_defs cong: bind_scrutinee Let_scrutinee)

subsection \<open>Bytes across a reallocation\<close>

text \<open>
  The copy path of \<^verbatim>\<open>my_realloc_internal\<close> asks \<^verbatim>\<open>my_malloc_internal\<close> for the new block while
  the old one is in use. After \<^verbatim>\<open>p0 = my_malloc(100); my_free(p0); p = my_malloc(1);
  my_malloc(200); p[0] = 0xAB\<close> the block of \<open>p\<close> is still the head of bucket 3, where
  \<^verbatim>\<open>my_free\<close> had put it before merging, and the request for 40 bytes that
  \<^verbatim>\<open>my_realloc(p, 40)\<close> makes finds it there as the head of the first larger class that
  is not empty: the block is handed out a second time and \<^verbatim>\<open>memset\<close> clears the byte
  before \<^verbatim>\<open>memcpy\<close> is reached.
\<close>

lemma realloc_copy_path_takes_block_in_use:
  "session 0x10000000 [Allocate 100, Free 0x10000050, Allocate 1, Allocate 200] \<bind>
     write_through 0x10000050 [0xAB] \<bind>
       (\<lambda>s. my_malloc_internal 40 ''main.c'' 0 s \<bind>
         (\<lambda>(q, s'). Some (my_malloc_size 0x10000050 s, readable s 0x10000050 1, q, readable s' q 1)))
   = Some (Some 1, [Some 0xAB], 0x10000050, [Some 0])"
  by (simp add: op_defs store_defs readable_def write_through_def cong: bind_scrutinee Let_scrutinee)

text \<open>
  C6. The code breaks the claim on its in-place path: for \<^verbatim>\<open>p = my_malloc(8)\<close> holding the
  bytes 1 to 8, \<^verbatim>\<open>my_realloc(p, SIZE_MAX)\<close> computes \<^verbatim>\<open>ALIGN(SIZE_MAX + 32) = 32\<close>, which the
  block of 48 bytes holds, and returns \<open>p\<close>, after \<^verbatim>\<open>add_guard_bytes\<close> has written its
  second guard at \<^verbatim>\<open>p + SIZE_MAX\<close>, that is from \<^verbatim>\<open>p - 1\<close> to \<^verbatim>\<open>p + 14\<close>: the eight bytes
  read through the returned pointer are \<^verbatim>\<open>0xFE\<close>.
\<close>

theorem realloc_size_overflow_overwrites_payload:
  "initialize (start 0x10000000 True) \<bind> my_malloc_internal 8 ''main.c'' 0 \<bind>
     (\<lambda>(p, s0). write_through p [1, 2, 3, 4, 5, 6, 7, 8] s0 \<bind>
       (\<lambda>s. my_realloc_internal p SIZE_MAX ''main.c'' 0 s \<bind>
         (\<lambda>(q, s'). Some (p, readable s p 8, q, readable s' q 8))))
   = Some (0x10000050,
       [Some 1, Some 2, Some 3, Some 4, Some 5, Some 6, Some 7, Some 8], 0x10000050,
       [Some 0xFE, Some 0xFE, Some 0xFE, Some 0xFE, Some 0xFE, Some 0xFE, Some 0xFE, Some 0xFE])"
  by (simp add: op_defs store_defs readable_def write_through_def cong: bind_scrutinee Let_scrutinee)

end
